theory Spec2Isabelle
  imports Main "HOL-Library.Word"
begin

section \<open>The request ledger: contract CoaInference (contracts/Inference.sol)\<close>

text \<open>
  Solidity value types are modelled at their width: \<open>uint256\<close> and \<open>bytes32\<close> as
  256-bit words, \<open>address\<close> as a 160-bit word. A \<open>mapping\<close> is a total function
  whose unset slots read as the zero value of the value type. A \<open>string\<close> is a list
  of characters.
\<close>

type_synonym uint256 = "256 word"
type_synonym bytes32 = "256 word"
type_synonym address = "160 word"

text \<open>\<^verbatim>\<open>struct Call\<close>, lines 12-18.\<close>

record Call =
  caller :: address
  model :: string
  promptHash :: bytes32
  resultHash :: bytes32
  reportHash :: bytes32

text \<open>The value an unset slot of \<^verbatim>\<open>calls\<close> reads as.\<close>

definition zero_Call :: Call where
  "zero_Call = \<lparr>caller = 0, model = [], promptHash = 0, resultHash = 0, reportHash = 0\<rparr>"

text \<open>
  The storage of the contract. \<open>owner\<close> is the variable \<^verbatim>\<open>_owner\<close> of the
  inherited OpenZeppelin \<^verbatim>\<open>Ownable\<close>; the other fields are the state variables of
  lines 9-22.
\<close>

record storage =
  owner :: address
  requestCounter :: uint256
  inferenceNode :: address
  calls :: "uint256 \<Rightarrow> Call"
  models :: "string \<Rightarrow> bool"
  modelList :: "string list"

datatype event =
    CallRequested uint256 address string bytes32
  | CallFinished uint256 bytes32 bytes32
  | ModelAdded string
  | ModelDeled string

text \<open>
  Every way a call reverts: one constructor for each \<^verbatim>\<open>require\<close> message of the
  source, one for the \<^verbatim>\<open>onlyOwner\<close> check of \<^verbatim>\<open>Ownable\<close>, and one for the
  arithmetic panic of the checked increment \<^verbatim>\<open>++_requestCounter\<close> (Solidity 0.8).
\<close>

datatype revert =
    Not_owner                  \<comment> \<open>\<^verbatim>\<open>onlyOwner\<close> of Ownable\<close>
  | Not_inference_node         \<comment> \<open>"Inference: not inference node"\<close>
  | Inference_node_empty       \<comment> \<open>"Inference: inference node can't be empty"\<close>
  | Model_already_exists       \<comment> \<open>"Inference: model already exists"\<close>
  | Model_no_exists            \<comment> \<open>"Inference: model no exists"\<close>
  | Model_unsupported          \<comment> \<open>"Inference: model unsupported"\<close>
  | Prompt_hash_empty          \<comment> \<open>"Inference: prompt hash is empty"\<close>
  | Invalid_requestId          \<comment> \<open>"Inference: invalid requestId"\<close>
  | Already_fulfilled          \<comment> \<open>"Inference: already fulfilled"\<close>
  | Panic_overflow             \<comment> \<open>Panic(0x11) of checked arithmetic\<close>

text \<open>
  A call either reverts, leaving storage as it was and logging nothing, or returns the
  new storage with the events it emitted, in order.
\<close>

type_synonym outcome = "revert + storage \<times> event list"

definition setInferenceNode :: "storage \<Rightarrow> address \<Rightarrow> address \<Rightarrow> outcome" where
  "setInferenceNode s sender inferenceNode' =
     (if sender \<noteq> owner s then Inl Not_owner
      else if inferenceNode' = 0 then Inl Inference_node_empty
      else Inr (s\<lparr>inferenceNode := inferenceNode'\<rparr>, []))"

definition addModel :: "storage \<Rightarrow> address \<Rightarrow> string \<Rightarrow> outcome" where
  "addModel s sender m =
     (if sender \<noteq> owner s then Inl Not_owner
      else if models s m then Inl Model_already_exists
      else Inr (s\<lparr>models := (models s)(m := True), modelList := modelList s @ [m]\<rparr>,
                [ModelAdded m]))"

text \<open>The body of the loop of \<^verbatim>\<open>addModels\<close>, lines 79-85, run over the array in order.\<close>

fun addModels_loop :: "storage \<Rightarrow> string list \<Rightarrow> storage \<times> event list" where
  "addModels_loop s [] = (s, [])"
| "addModels_loop s (m # ms) =
     (if \<not> models s m
      then (let (s', evs) =
                  addModels_loop (s\<lparr>models := (models s)(m := True), modelList := modelList s @ [m]\<rparr>) ms
            in (s', ModelAdded m # evs))
      else addModels_loop s ms)"

definition addModels :: "storage \<Rightarrow> address \<Rightarrow> string list \<Rightarrow> outcome" where
  "addModels s sender ms =
     (if sender \<noteq> owner s then Inl Not_owner else Inr (addModels_loop s ms))"

text \<open>
  The removal loop of lines 93-100 and 111-121: the first entry equal to the name is
  overwritten with the last entry and the array is popped. The comparison of the two
  \<^verbatim>\<open>keccak256\<close> digests is modelled as equality of the strings.
\<close>

function removeFromList :: "string list \<Rightarrow> string \<Rightarrow> nat \<Rightarrow> string list" where
  "removeFromList ml m i =
     (if i < length ml
      then (if ml ! i = m then butlast (ml[i := ml ! (length ml - 1)])
            else removeFromList ml m (Suc i))
      else ml)"
  by pat_completeness auto
termination
  by (relation "measure (\<lambda>(ml, m, i). length ml - i)") auto

definition delModel :: "storage \<Rightarrow> address \<Rightarrow> string \<Rightarrow> outcome" where
  "delModel s sender m =
     (if sender \<noteq> owner s then Inl Not_owner
      else if \<not> models s m then Inl Model_no_exists
      else Inr (s\<lparr>models := (models s)(m := False),
                  modelList := removeFromList (modelList s) m 0\<rparr>,
                [ModelDeled m]))"

fun delModels_loop :: "storage \<Rightarrow> string list \<Rightarrow> storage \<times> event list" where
  "delModels_loop s [] = (s, [])"
| "delModels_loop s (m # ms) =
     (if models s m
      then (let (s', evs) =
                  delModels_loop (s\<lparr>models := (models s)(m := False),
                                     modelList := removeFromList (modelList s) m 0\<rparr>) ms
            in (s', ModelDeled m # evs))
      else delModels_loop s ms)"

definition delModels :: "storage \<Rightarrow> address \<Rightarrow> string list \<Rightarrow> outcome" where
  "delModels s sender ms =
     (if sender \<noteq> owner s then Inl Not_owner else Inr (delModels_loop s ms))"

definition getCaller :: "storage \<Rightarrow> uint256 \<Rightarrow> address" where
  "getCaller s requestId = caller (calls s requestId)"

definition getAllModels :: "storage \<Rightarrow> string list" where
  "getAllModels s = modelList s"

text \<open>
  \<^verbatim>\<open>requestCall\<close>, lines 132-146. The pre-increment is checked: at the largest
  \<open>uint256\<close> it panics instead of wrapping.
\<close>

definition requestCall :: "storage \<Rightarrow> address \<Rightarrow> string \<Rightarrow> bytes32 \<Rightarrow> outcome" where
  "requestCall s sender m promptHash' =
     (if \<not> models s m then Inl Model_unsupported
      else if promptHash' = 0 then Inl Prompt_hash_empty
      else if requestCounter s = - 1 then Inl Panic_overflow
      else (let requestId = requestCounter s + 1
            in Inr (s\<lparr>requestCounter := requestId,
                       calls := (calls s)(requestId :=
                         \<lparr>caller = sender, model = m, promptHash = promptHash',
                          resultHash = 0, reportHash = 0\<rparr>)\<rparr>,
                     [CallRequested requestId sender m promptHash'])))"

text \<open>\<^verbatim>\<open>submitResult\<close>, lines 148-164.\<close>

definition submitResult ::
  "storage \<Rightarrow> address \<Rightarrow> uint256 \<Rightarrow> bytes32 \<Rightarrow> bytes32 \<Rightarrow> outcome" where
  "submitResult s sender requestId resultHash' reportHash' =
     (if sender \<noteq> inferenceNode s then Inl Not_inference_node
      else if \<not> (requestId > 0 \<and> requestId \<le> requestCounter s) then Inl Invalid_requestId
      else if resultHash (calls s requestId) \<noteq> 0 then Inl Already_fulfilled
      else Inr (s\<lparr>calls := (calls s)(requestId :=
                    (calls s requestId)\<lparr>resultHash := resultHash', reportHash := reportHash'\<rparr>)\<rparr>,
                [CallFinished requestId resultHash' reportHash']))"

text \<open>
  The constructor, lines 45-55: the deployer becomes the owner, the node must not be the
  zero address, and the initial models are added by the same loop as \<^verbatim>\<open>addModels\<close>.
\<close>

definition empty_storage :: "address \<Rightarrow> storage" where
  "empty_storage deployer =
     \<lparr>owner = deployer, requestCounter = 0, inferenceNode = 0,
      calls = (\<lambda>_. zero_Call), models = (\<lambda>_. False), modelList = []\<rparr>"

definition constructor :: "address \<Rightarrow> address \<Rightarrow> string list \<Rightarrow> outcome" where
  "constructor deployer inferenceNode' initialModels =
     (if inferenceNode' = 0 then Inl Inference_node_empty
      else addModels ((empty_storage deployer)\<lparr>inferenceNode := inferenceNode'\<rparr>)
             deployer initialModels)"

subsection \<open>Transactions\<close>

text \<open>
  The state-changing external functions of the contract, as the calls a transaction can
  make. A reverted transaction leaves the storage unchanged and logs nothing. The
  functions inherited from \<^verbatim>\<open>Ownable\<close> that hand the ownership over, and the
  payable \<^verbatim>\<open>receive\<close>, touch none of the state variables of the contract and are
  not among them.
\<close>

datatype call =
    SetInferenceNode address
  | AddModel string
  | AddModels "string list"
  | DelModel string
  | DelModels "string list"
  | RequestCall string bytes32
  | SubmitResult uint256 bytes32 bytes32

fun exec :: "storage \<Rightarrow> address \<Rightarrow> call \<Rightarrow> outcome" where
  "exec s sender (SetInferenceNode a) = setInferenceNode s sender a"
| "exec s sender (AddModel m) = addModel s sender m"
| "exec s sender (AddModels ms) = addModels s sender ms"
| "exec s sender (DelModel m) = delModel s sender m"
| "exec s sender (DelModels ms) = delModels s sender ms"
| "exec s sender (RequestCall m h) = requestCall s sender m h"
| "exec s sender (SubmitResult i r p) = submitResult s sender i r p"

definition transact :: "storage \<Rightarrow> address \<times> call \<Rightarrow> storage \<times> event list" where
  "transact s tx = (case exec s (fst tx) (snd tx) of Inl e \<Rightarrow> (s, []) | Inr r \<Rightarrow> r)"

fun run :: "storage \<Rightarrow> (address \<times> call) list \<Rightarrow> storage \<times> event list" where
  "run s [] = (s, [])"
| "run s (tx # txs) =
     (let (s', evs) = transact s tx; (s'', evs') = run s' txs in (s'', evs @ evs'))"

text \<open>The request ids announced by \<^verbatim>\<open>CallRequested\<close> events, in log order.\<close>

fun requested_ids :: "event list \<Rightarrow> uint256 list" where
  "requested_ids [] = []"
| "requested_ids (CallRequested i a m h # evs) = i # requested_ids evs"
| "requested_ids (e # evs) = requested_ids evs"

section \<open>JavaScript values and errors\<close>

text \<open>
  The values the JavaScript sources test with \<^verbatim>\<open>!x\<close>, \<^verbatim>\<open>typeof\<close> and \<^verbatim>\<open>===\<close>:
  what \<^verbatim>\<open>JSON.parse\<close> can return, and \<^verbatim>\<open>undefined\<close>. Numbers are restricted to
  integers.
\<close>

datatype jsval =
    JUndefined
  | JNull
  | JBool bool
  | JNum int
  | JStr string
  | JArr "jsval list"
  | JObj "(string \<times> jsval) list"

fun truthy :: "jsval \<Rightarrow> bool" where
  "truthy JUndefined = False"
| "truthy JNull = False"
| "truthy (JBool b) = b"
| "truthy (JNum n) = (n \<noteq> 0)"
| "truthy (JStr s) = (s \<noteq> [])"
| "truthy (JArr xs) = True"
| "truthy (JObj kvs) = True"

fun typeof :: "jsval \<Rightarrow> string" where
  "typeof JUndefined = ''undefined''"
| "typeof JNull = ''object''"
| "typeof (JBool b) = ''boolean''"
| "typeof (JNum n) = ''number''"
| "typeof (JStr s) = ''string''"
| "typeof (JArr xs) = ''object''"
| "typeof (JObj kvs) = ''object''"

text \<open>
  The errors the JavaScript sources throw, one constructor for each message template,
  carrying the values the template interpolates. \<open>External\<close> is an error raised by a
  library outside the sources (the HTTPS stack, ethers, jose), by its message.
\<close>

datatype js_err =
    HTTP_error nat string              \<comment> \<open>\<^verbatim>\<open>HTTP ${res.statusCode}: ${responseData}\<close>\<close>
  | Request_failed string              \<comment> \<open>\<^verbatim>\<open>Request failed: ${err.message}\<close>\<close>
  | Request_timeout                    \<comment> \<open>\<^verbatim>\<open>Request timeout\<close>\<close>
  | Content_must_be_non_empty_string   \<comment> \<open>\<^verbatim>\<open>Content must be a non-empty string\<close>\<close>
  | Key_must_be_non_empty_string       \<comment> \<open>\<^verbatim>\<open>Key must be a non-empty string\<close>\<close>
  | Failed_to_upload_object js_err     \<comment> \<open>\<^verbatim>\<open>Failed to upload object: ${error.message}\<close>\<close>
  | Failed_to_get_object js_err        \<comment> \<open>\<^verbatim>\<open>Failed to get object: ${error.message}\<close>\<close>
  | TypeError                          \<comment> \<open>a property read on \<^verbatim>\<open>undefined\<close> or \<^verbatim>\<open>null\<close>\<close>
  | SyntaxError                        \<comment> \<open>thrown by \<^verbatim>\<open>JSON.parse\<close>\<close>
  | Invalid_JWT_format                 \<comment> \<open>\<^verbatim>\<open>Invalid JWT format\<close>\<close>
  | Missing_kid_or_alg                 \<comment> \<open>\<^verbatim>\<open>Missing kid or alg in JWT header\<close>\<close>
  | Failed_to_fetch_JWKS nat           \<comment> \<open>\<^verbatim>\<open>Failed to fetch JWKS: ${res.status}\<close>\<close>
  | JWK_not_found jsval                \<comment> \<open>\<^verbatim>\<open>JWK with kid ${kid} not found\<close>\<close>
  | Model_not_supported string         \<comment> \<open>\<^verbatim>\<open>Model ${model} is not supported\<close>\<close>
  | Timeout_waiting nat
      \<comment> \<open>\<^verbatim>\<open>Timeout waiting for inference result after ${maxWaitTime / 1000} seconds\<close>,
          carrying \<^verbatim>\<open>maxWaitTime\<close>\<close>
  | External string

section \<open>The content store client: class MinioClient (pkg/monio/index.js)\<close>

record config =
  endpoint :: string
  timeout :: nat
  retries :: nat
  userAgent :: string

definition DEFAULT_CONFIG :: config where
  "DEFAULT_CONFIG = \<lparr>endpoint = ''http://34.126.81.115:8080'', timeout = 30000, retries = 3,
     userAgent = ''MinIO-NodeJS-Client/1.0.0''\<rparr>"

text \<open>
  The three requests the client sends: \<^verbatim>\<open>POST /v1/minio/object\<close> with the content,
  \<^verbatim>\<open>GET /v1/minio/get/<key>\<close> and \<^verbatim>\<open>GET /v1/minio/health\<close>.
\<close>

datatype request = POST_object string | GET_object string | GET_health

text \<open>
  What one HTTP exchange can do: end with a status and a body, raise the socket's
  \<^verbatim>\<open>error\<close> event, or its \<^verbatim>\<open>timeout\<close> event. The network is a function from the
  request and the number of the attempt (from 1) to what that exchange does.
\<close>

datatype transport = Response nat string | Socket_error string | Socket_timeout

type_synonym network = "request \<Rightarrow> nat \<Rightarrow> transport"

record response =
  statusCode :: nat
  data :: string

text \<open>\<^verbatim>\<open>_makeRequest\<close>, lines 35-97: a 2xx status resolves, everything else rejects.\<close>

definition makeRequest :: "transport \<Rightarrow> js_err + response" where
  "makeRequest t =
     (case t of
        Response status body \<Rightarrow>
          if 200 \<le> status \<and> status < 300 then Inr \<lparr>statusCode = status, data = body\<rparr>
          else Inl (HTTP_error status body)
      | Socket_error m \<Rightarrow> Inl (Request_failed m)
      | Socket_timeout \<Rightarrow> Inl Request_timeout)"

text \<open>What the client does to the outside world, in order.\<close>

datatype io = Request_sent request nat | Slept nat

text \<open>
  \<^verbatim>\<open>_requestWithRetry\<close>, lines 104-125. The loop variable \<open>attempt\<close> runs from 1 while
  \<open>attempt \<le> retries\<close>; \<open>lastError\<close> is \<open>None\<close> while it is still \<^verbatim>\<open>undefined\<close>. The
  result is the response, or the value thrown.
\<close>

function requestWithRetry_loop ::
  "nat \<Rightarrow> network \<Rightarrow> request \<Rightarrow> nat \<Rightarrow> js_err option \<Rightarrow> io list
     \<Rightarrow> (js_err option + response) \<times> io list" where
  "requestWithRetry_loop n net options attempt lastError tr =
     (if attempt \<le> n
      then (case makeRequest (net options attempt) of
              Inr r \<Rightarrow> (Inr r, tr @ [Request_sent options attempt])
            | Inl error \<Rightarrow>
                if attempt = n then (Inl (Some error), tr @ [Request_sent options attempt])
                else requestWithRetry_loop n net options (Suc attempt) (Some error)
                       (tr @ [Request_sent options attempt,
                              Slept (min (1000 * 2 ^ (attempt - 1)) 5000)]))
      else (Inl lastError, tr))"
  by pat_completeness auto
termination
  by (relation "measure (\<lambda>(n, net, options, attempt, lastError, tr). Suc n - attempt)") auto

definition requestWithRetry ::
  "config \<Rightarrow> network \<Rightarrow> request \<Rightarrow> (js_err option + response) \<times> io list" where
  "requestWithRetry cfg net options = requestWithRetry_loop (retries cfg) net options 1 None []"

text \<open>
  \<^verbatim>\<open>putObject\<close> and \<^verbatim>\<open>getObject\<close>, lines 132-170. The \<^verbatim>\<open>catch\<close> reads
  \<^verbatim>\<open>error.message\<close>, which is itself a TypeError when the value thrown is
  \<^verbatim>\<open>undefined\<close>.
\<close>

definition putObject :: "config \<Rightarrow> network \<Rightarrow> jsval \<Rightarrow> (js_err + string) \<times> io list" where
  "putObject cfg net content =
     (if \<not> truthy content \<or> typeof content \<noteq> ''string''
      then (Inl Content_must_be_non_empty_string, [])
      else (case content of
              JStr c \<Rightarrow>
                (case requestWithRetry cfg net (POST_object c) of
                   (Inr response, tr) \<Rightarrow> (Inr (data response), tr)
                 | (Inl (Some error), tr) \<Rightarrow> (Inl (Failed_to_upload_object error), tr)
                 | (Inl None, tr) \<Rightarrow> (Inl TypeError, tr))
            | _ \<Rightarrow> (Inl Content_must_be_non_empty_string, [])))"

definition getObject :: "config \<Rightarrow> network \<Rightarrow> jsval \<Rightarrow> (js_err + string) \<times> io list" where
  "getObject cfg net key =
     (if \<not> truthy key \<or> typeof key \<noteq> ''string''
      then (Inl Key_must_be_non_empty_string, [])
      else (case key of
              JStr k \<Rightarrow>
                (case requestWithRetry cfg net (GET_object k) of
                   (Inr response, tr) \<Rightarrow> (Inr (data response), tr)
                 | (Inl (Some error), tr) \<Rightarrow> (Inl (Failed_to_get_object error), tr)
                 | (Inl None, tr) \<Rightarrow> (Inl TypeError, tr))
            | _ \<Rightarrow> (Inl Key_must_be_non_empty_string, [])))"

definition ping :: "network \<Rightarrow> bool \<times> io list" where
  "ping net =
     (case makeRequest (net GET_health 1) of
        Inr r \<Rightarrow> (True, [Request_sent GET_health 1])
      | Inl error \<Rightarrow> (False, [Request_sent GET_health 1]))"




section \<open>The attestation verifier: pkg/tee/index.js\<close>







record fetched =
  ok :: bool
  status :: nat
  body :: string








section \<open>The correlation and polling engine: class COAApplication (index.js)\<close>

definition strip0x :: "string \<Rightarrow> string" where
  "strip0x hash = (if take 2 hash = ''0x'' then drop 2 hash else hash)"

text \<open>\<^verbatim>\<open>ethers.ZeroHash\<close>: \<^verbatim>\<open>0x\<close> and 64 zeros.\<close>

definition ZeroHash :: string where
  "ZeroHash = ''0x'' @ replicate 64 (CHR ''0'')"

text \<open>
  A log of a receipt, as \<^verbatim>\<open>interface.parseLog\<close> reads it: a log of the contract's
  ABI, with the event's name and its \<^verbatim>\<open>requestId\<close> argument, or a log it does not
  parse (it returns \<^verbatim>\<open>null\<close> or throws; the callback answers \<^verbatim>\<open>false\<close> either way).
\<close>

datatype log = Event_log string nat | Foreign_log

record receipt =
  logs :: "log list"
  hash :: string

text \<open>
  The ledger as the engine reaches it through ethers: the view \<^verbatim>\<open>models(model)\<close>, the
  transaction \<^verbatim>\<open>requestCall(model, promptHash)\<close> followed by \<^verbatim>\<open>tx.wait()\<close>, and the
  view \<^verbatim>\<open>calls(requestId)\<close> read at a time in milliseconds. Each either throws (the
  message) or returns. \<open>rpc_ms\<close> is the time one read of \<^verbatim>\<open>calls\<close> takes, and
  \<open>clock\<close> what \<^verbatim>\<open>Date.now()\<close> returns when polling starts. The request id is
  \<open>None\<close> when it is \<^verbatim>\<open>undefined\<close>.
\<close>

record details =
  details_caller :: string
  details_model :: string
  details_promptHash :: string
  details_resultHash :: string
  details_reportHash :: string

record chain =
  models_view :: "string \<Rightarrow> string + bool"
  send_requestCall :: "string \<Rightarrow> string \<Rightarrow> string + receipt"
  calls_view :: "nat \<Rightarrow> nat option \<Rightarrow> string + details"
  rpc_ms :: nat
  clock :: nat
  store_config :: config
  store :: network

definition uploadPrompt :: "chain \<Rightarrow> jsval \<Rightarrow> (js_err + string) \<times> io list" where
  "uploadPrompt env prompt = putObject (store_config env) (store env) prompt"

text \<open>The callback of \<^verbatim>\<open>receipt.logs.find\<close>, lines 150-157.\<close>

fun is_CallRequested :: "log \<Rightarrow> bool" where
  "is_CallRequested (Event_log name requestId) = (name = ''CallRequested'')"
| "is_CallRequested Foreign_log = False"

text \<open>What \<^verbatim>\<open>callInference\<close> returns: \<^verbatim>\<open>{ receipt, requestId, promptHash }\<close>.\<close>

record inference =
  inference_receipt :: receipt
  inference_requestId :: "nat option"
  inference_promptHash :: string

text \<open>\<^verbatim>\<open>callInference\<close>, lines 112-173: the \<^verbatim>\<open>catch\<close> logs and throws the error again.\<close>

definition callInference :: "chain \<Rightarrow> string \<Rightarrow> string \<Rightarrow> js_err + inference" where
  "callInference env objectKey m =
     (case models_view env m of
        Inl e \<Rightarrow> Inl (External e)
      | Inr isModelSupported \<Rightarrow>
          if \<not> isModelSupported then Inl (Model_not_supported m)
          else (let promptHash' = ''0x'' @ objectKey
                in case send_requestCall env m promptHash' of
                     Inl e \<Rightarrow> Inl (External e)
                   | Inr receipt' \<Rightarrow>
                       (let event = find is_CallRequested (logs receipt');
                            requestId = (case event of
                                           Some (Event_log name i) \<Rightarrow> Some i
                                         | _ \<Rightarrow> None)
                        in Inr \<lparr>inference_receipt = receipt', inference_requestId = requestId,
                                inference_promptHash = promptHash'\<rparr>)))"

text \<open>\<^verbatim>\<open>getRequestDetails\<close>, lines 291-309, at a given time.\<close>

definition getRequestDetails :: "chain \<Rightarrow> nat \<Rightarrow> nat option \<Rightarrow> js_err + details" where
  "getRequestDetails env now requestId =
     (case calls_view env now requestId of
        Inl e \<Rightarrow> Inl (External e)
      | Inr call \<Rightarrow>
          Inr \<lparr>details_caller = details_caller call, details_model = details_model call,
               details_promptHash = details_promptHash call,
               details_resultHash = details_resultHash call,
               details_reportHash = details_reportHash call\<rparr>)"

text \<open>What \<^verbatim>\<open>waitForInferenceResult\<close> returns when the result is ready.\<close>

record resolved =
  resolved_requestId :: "nat option"
  resolved_resultHash :: string
  resolved_reportHash :: string
  resolved_result :: string
  resolved_report :: string

text \<open>What the engine does to the ledger and to the store while it waits, in order.\<close>

datatype engine_io = Ledger_read "nat option" | Waited nat | Store_io io

text \<open>
  Lines 329-343: both objects are fetched from the store by the digests without their
  \<^verbatim>\<open>0x\<close>; an error of \<^verbatim>\<open>getObject\<close> leaves the function as it is thrown.
\<close>

definition download ::
  "chain \<Rightarrow> nat option \<Rightarrow> details \<Rightarrow> engine_io list \<Rightarrow> (js_err + resolved) \<times> engine_io list" where
  "download env requestId d tr =
     (case getObject (store_config env) (store env) (JStr (strip0x (details_resultHash d))) of
        (Inl e, io1) \<Rightarrow> (Inl e, tr @ map Store_io io1)
      | (Inr result, io1) \<Rightarrow>
          (case getObject (store_config env) (store env) (JStr (strip0x (details_reportHash d))) of
             (Inl e, io2) \<Rightarrow> (Inl e, tr @ map Store_io io1 @ map Store_io io2)
           | (Inr report, io2) \<Rightarrow>
               (Inr \<lparr>resolved_requestId = requestId,
                     resolved_resultHash = details_resultHash d,
                     resolved_reportHash = details_reportHash d,
                     resolved_result = result, resolved_report = report\<rparr>,
                tr @ map Store_io io1 @ map Store_io io2)))"

text \<open>
  The loop of \<^verbatim>\<open>waitForInferenceResult\<close>, lines 324-350, from the moment \<open>now\<close> of one
  test of its condition. A read of the ledger takes \<open>rpc_ms\<close>, the \<^verbatim>\<open>setTimeout\<close>
  takes \<open>checkInterval\<close>. With both zero the clock never moves and the loop of a request
  that is not fulfilled does not end: the function is partial.
\<close>

partial_function (option) poll ::
  "chain \<Rightarrow> nat option \<Rightarrow> nat \<Rightarrow> nat \<Rightarrow> nat \<Rightarrow> nat \<Rightarrow> engine_io list
     \<Rightarrow> ((js_err + resolved) \<times> engine_io list) option" where
  "poll env requestId maxWaitTime checkInterval startTime now tr =
     (if int now - int startTime < int maxWaitTime
      then (case getRequestDetails env now requestId of
              Inl e \<Rightarrow> Some (Inl e, tr @ [Ledger_read requestId])
            | Inr d \<Rightarrow>
                if details_resultHash d \<noteq> ZeroHash \<and> details_reportHash d \<noteq> ZeroHash
                then Some (download env requestId d (tr @ [Ledger_read requestId]))
                else poll env requestId maxWaitTime checkInterval startTime
                       (now + rpc_ms env + checkInterval)
                       (tr @ [Ledger_read requestId, Waited checkInterval]))
      else Some (Inl (Timeout_waiting maxWaitTime), tr))"

definition waitForInferenceResult ::
  "chain \<Rightarrow> nat option \<Rightarrow> nat \<Rightarrow> nat \<Rightarrow> ((js_err + resolved) \<times> engine_io list) option" where
  "waitForInferenceResult env requestId maxWaitTime checkInterval =
     poll env requestId maxWaitTime checkInterval (clock env) (clock env) []"

text \<open>The default arguments: five minutes, ten seconds.\<close>

definition default_maxWaitTime :: nat where
  "default_maxWaitTime = 5 * 60 * 1000"

definition default_checkInterval :: nat where
  "default_checkInterval = 10 * 1000"

section \<open>Example states\<close>

text \<open>
  A ledger deployed by account 1 with inference node 2 and the model \<open>COA\<close>, and the
  same ledger after account 3 has submitted one request.
\<close>

definition ledger0 :: storage where
  "ledger0 = \<lparr>owner = 1, requestCounter = 0, inferenceNode = 2,
     calls = (\<lambda>_. zero_Call), models = (\<lambda>m. m = ''COA''), modelList = [''COA'']\<rparr>"

definition ledger1 :: storage where
  "ledger1 = fst (transact ledger0 (3, RequestCall ''COA'' 7))"

text \<open>
  A chain on which request 7 has its result digest from the start and its report digest
  from time 10000 on, and no other request is ever fulfilled; reads take no time. Its
  store answers every \<^verbatim>\<open>GET\<close> at once.
\<close>

definition pending_chain :: chain where
  "pending_chain = \<lparr>models_view = (\<lambda>m. Inr True),
     send_requestCall = (\<lambda>m h. Inr \<lparr>logs = [Foreign_log], hash = ''0xfeed''\<rparr>),
     calls_view = (\<lambda>t i. Inr \<lparr>details_caller = ''0xc0'', details_model = ''COA'',
        details_promptHash = ''0xaa'',
        details_resultHash = (if i = Some 7 then ''0xbb'' else ZeroHash),
        details_reportHash = (if i = Some 7 \<and> 10000 \<le> t then ''0xcc'' else ZeroHash)\<rparr>),
     rpc_ms = 0, clock = 0, store_config = DEFAULT_CONFIG,
     store = (\<lambda>r a. case r of GET_object k \<Rightarrow> Response 200 (''content of '' @ k)
                      | _ \<Rightarrow> Socket_timeout)\<rparr>"



section \<open>Properties of the ledger\<close>

lemma constructor_ledger0: "constructor 1 2 [''COA''] = Inr (ledger0, [ModelAdded ''COA''])"
  by (simp add: constructor_def addModels_def empty_storage_def ledger0_def fun_eq_iff)

lemma ledger1_simps:
  "inferenceNode ledger1 = 2" "requestCounter ledger1 = 1" "owner ledger1 = 1"
  "calls ledger1 1 = \<lparr>caller = 3, model = ''COA'', promptHash = 7, resultHash = 0, reportHash = 0\<rparr>"
  by (simp_all add: ledger1_def ledger0_def transact_def requestCall_def Let_def)

subsection \<open>Request ids\<close>

lemma requested_ids_append: "requested_ids (xs @ ys) = requested_ids xs @ requested_ids ys"
  by (induction xs rule: requested_ids.induct) simp_all

lemma addModels_loop_frame:
  "requestCounter (fst (addModels_loop s ms)) = requestCounter s \<and>
   requested_ids (snd (addModels_loop s ms)) = []"
  by (induction s ms rule: addModels_loop.induct) (simp_all add: split_beta)

lemma delModels_loop_frame:
  "requestCounter (fst (delModels_loop s ms)) = requestCounter s \<and>
   requested_ids (snd (delModels_loop s ms)) = []"
  by (induction s ms rule: delModels_loop.induct) (simp_all add: split_beta)

text \<open>
  A transaction either leaves the counter alone and announces no request, or moves it
  up by one, below the largest value, and announces exactly the new value.
\<close>

lemma transact_counter:
  "(requestCounter (fst (transact s tx)) = requestCounter s \<and>
      requested_ids (snd (transact s tx)) = []) \<or>
   (requestCounter s \<noteq> - 1 \<and>
      requestCounter (fst (transact s tx)) = requestCounter s + 1 \<and>
      requested_ids (snd (transact s tx)) = [requestCounter s + 1])"
proof (cases tx)
  case (Pair sender c)
  show ?thesis
  proof (cases c)
    case (AddModels ms)
    with Pair show ?thesis
      by (simp add: transact_def addModels_def addModels_loop_frame)
  next
    case (DelModels ms)
    with Pair show ?thesis
      by (simp add: transact_def delModels_def delModels_loop_frame)
  qed (use Pair in \<open>simp_all add: transact_def setInferenceNode_def addModel_def delModel_def
        requestCall_def submitResult_def Let_def\<close>)
qed

lemma unat_succ: "(c :: uint256) \<noteq> - 1 \<Longrightarrow> unat (c + 1) = Suc (unat c)"
  by (metis add.commute unatSuc add_eq_0_iff2)

lemma run_ids:
  "unat (requestCounter s) \<le> unat (requestCounter (fst (run s txs))) \<and>
   map unat (requested_ids (snd (run s txs))) =
     [Suc (unat (requestCounter s)) ..< Suc (unat (requestCounter (fst (run s txs))))]"
proof (induction txs arbitrary: s)
  case Nil
  show ?case by simp
next
  case (Cons tx txs)
  obtain s' evs where t: "transact s tx = (s', evs)" by (cases "transact s tx")
  obtain s'' evs' where r: "run s' txs = (s'', evs')" by (cases "run s' txs")
  from Cons.IH [of s'] r
  have le: "unat (requestCounter s') \<le> unat (requestCounter s'')"
    and ids: "map unat (requested_ids evs') =
        [Suc (unat (requestCounter s')) ..< Suc (unat (requestCounter s''))]"
    by simp_all
  from transact_counter [of s tx] t
  consider (same) "requestCounter s' = requestCounter s" "requested_ids evs = []"
    | (bumped) "requestCounter s \<noteq> - 1" "requestCounter s' = requestCounter s + 1"
        "requested_ids evs = [requestCounter s + 1]"
    by auto
  then show ?case
  proof cases
    case same
    with le ids t r show ?thesis by (simp add: requested_ids_append)
  next
    case bumped
    then have u: "unat (requestCounter s') = Suc (unat (requestCounter s))"
      by (simp add: unat_succ)
    with le have "Suc (unat (requestCounter s)) \<le> unat (requestCounter s'')" by simp
    then have "[Suc (unat (requestCounter s)) ..< Suc (unat (requestCounter s''))] =
        Suc (unat (requestCounter s)) #
          [Suc (Suc (unat (requestCounter s))) ..< Suc (unat (requestCounter s''))]"
      by (simp add: upt_conv_Cons)
    with bumped u le ids t r show ?thesis by (simp add: requested_ids_append)
  qed
qed

text \<open>
  C2. Whatever transactions are run against the ledger, by whatever senders and whether
  they revert or not, the ids announced by the \<^verbatim>\<open>CallRequested\<close> events are, in log
  order, the consecutive numbers from the counter's old value plus one up to its new
  value: strictly increasing, without gaps and without repeats. Each transaction runs
  to its end before the next one starts, so each id is taken by one submission only.
\<close>

theorem ids_consecutive:
  "map unat (requested_ids (snd (run s txs))) =
     [Suc (unat (requestCounter s)) ..< Suc (unat (requestCounter (fst (run s txs))))] \<and>
   sorted_wrt (<) (map unat (requested_ids (snd (run s txs)))) \<and>
   distinct (requested_ids (snd (run s txs)))"
proof -
  have eq: "map unat (requested_ids (snd (run s txs))) =
     [Suc (unat (requestCounter s)) ..< Suc (unat (requestCounter (fst (run s txs))))]"
    using run_ids [of s txs] by simp
  have "distinct (map unat (requested_ids (snd (run s txs))))"
    unfolding eq by simp
  then have "distinct (requested_ids (snd (run s txs)))"
    by (simp add: distinct_map)
  moreover have "sorted_wrt (<) (map unat (requested_ids (snd (run s txs))))"
    unfolding eq by (rule sorted_wrt_upt)
  ultimately show ?thesis using eq by simp
qed

theorem ids_consecutive_witness:
  "map unat (requested_ids (snd (run ledger0
      [(3, RequestCall ''COA'' 7), (3, RequestCall ''GPT'' 7), (4, RequestCall ''COA'' 9)]))) = [1, 2]"
  using ids_consecutive [of ledger0
      "[(3, RequestCall ''COA'' 7), (3, RequestCall ''GPT'' 7), (4, RequestCall ''COA'' 9)]"]
  by (simp add: ledger0_def transact_def requestCall_def Let_def)

subsection \<open>Submission\<close>

text \<open>
  C3, as the code has it. \<^verbatim>\<open>requestCall\<close> fails with "model unsupported" exactly when
  the model is not whitelisted, and with "prompt hash is empty" exactly when the model
  is whitelisted and the prompt digest is zero: the model is checked first. Otherwise,
  unless the counter stands at the largest 256-bit value, it takes the next id, stores
  the pending record (the sender, the model, the prompt digest, both other digests
  zero), changes nothing else, and emits \<^verbatim>\<open>CallRequested\<close> with the id, the sender,
  the model and the prompt digest.
\<close>

theorem requestCall_outcome:
  "(requestCall s sender m h = Inl Model_unsupported \<longleftrightarrow> \<not> models s m) \<and>
   (requestCall s sender m h = Inl Prompt_hash_empty \<longleftrightarrow> models s m \<and> h = 0) \<and>
   (models s m \<and> h \<noteq> 0 \<and> requestCounter s \<noteq> - 1 \<longrightarrow>
      (\<exists>s'. requestCall s sender m h =
              Inr (s', [CallRequested (requestCounter s + 1) sender m h]) \<and>
         unat (requestCounter s + 1) = Suc (unat (requestCounter s)) \<and>
         requestCounter s' = requestCounter s + 1 \<and>
         calls s' (requestCounter s + 1) =
           \<lparr>caller = sender, model = m, promptHash = h, resultHash = 0, reportHash = 0\<rparr> \<and>
         (\<forall>j. j \<noteq> requestCounter s + 1 \<longrightarrow> calls s' j = calls s j) \<and>
         models s' = models s \<and> modelList s' = modelList s \<and>
         owner s' = owner s \<and> inferenceNode s' = inferenceNode s))"
  by (simp add: requestCall_def Let_def unat_succ)

theorem requestCall_outcome_witness:
  "\<exists>s'. requestCall ledger0 3 ''COA'' 7 = Inr (s', [CallRequested 1 3 ''COA'' 7]) \<and>
     requestCounter s' = 1 \<and>
     calls s' 1 = \<lparr>caller = 3, model = ''COA'', promptHash = 7, resultHash = 0, reportHash = 0\<rparr>"
  using requestCall_outcome [of ledger0 3 "''COA''" 7]
  by (auto simp add: ledger0_def)

text \<open>
  With a model that is not whitelisted and a zero prompt digest the call fails with
  "model unsupported", not with "prompt hash is empty".
\<close>

theorem requestCall_zero_digest_unsupported_model:
  "\<not> (requestCall ledger0 3 ''GPT'' 0 = Inl Prompt_hash_empty \<longleftrightarrow> (0 :: bytes32) = 0)"
  by (simp add: requestCall_def ledger0_def)

subsection \<open>Fulfilment\<close>

text \<open>
  C4. \<^verbatim>\<open>submitResult\<close> does not look at the digests it is given. On an allocated id
  whose record is pending, a call by the inference node succeeds with any digests and
  emits \<^verbatim>\<open>CallFinished\<close>. With a zero result digest the record stays pending, the
  report digest is stored, and a second call on the same id succeeds again and
  replaces the report digest.
\<close>

theorem submitResult_zero_result_stays_pending:
  assumes "sender = inferenceNode s"
    and "0 < requestId" and "requestId \<le> requestCounter s"
    and "resultHash (calls s requestId) = 0"
  shows "(\<forall>r p. \<exists>s'. submitResult s sender requestId r p = Inr (s', [CallFinished requestId r p])) \<and>
    (\<exists>s'. submitResult s sender requestId 0 report1 = Inr (s', [CallFinished requestId 0 report1]) \<and>
       resultHash (calls s' requestId) = 0 \<and> reportHash (calls s' requestId) = report1 \<and>
       (\<exists>s''. submitResult s' sender requestId result2 report2 =
                 Inr (s'', [CallFinished requestId result2 report2]) \<and>
          resultHash (calls s'' requestId) = result2 \<and> reportHash (calls s'' requestId) = report2))"
  using assms by (simp add: submitResult_def)

theorem submitResult_zero_result_witness:
  "\<exists>s'. submitResult ledger1 2 1 0 5 = Inr (s', [CallFinished 1 0 5]) \<and>
       resultHash (calls s' 1) = 0 \<and> reportHash (calls s' 1) = 5 \<and>
       (\<exists>s''. submitResult s' 2 1 9 6 = Inr (s'', [CallFinished 1 9 6]) \<and>
          resultHash (calls s'' 1) = 9 \<and> reportHash (calls s'' 1) = 6)"
  using submitResult_zero_result_stays_pending [of 2 ledger1 1 5 9 6]
  by (simp add: ledger1_simps)

text \<open>
  C1 at a concrete input: one request, then two calls of \<^verbatim>\<open>submitResult\<close> on its id,
  the first with a zero result digest. Both succeed, and the report digest 5 stored by
  the first is replaced by 6.
\<close>

theorem fulfill_twice_after_zero_result:
  "snd (run ledger0 [(3, RequestCall ''COA'' 7), (2, SubmitResult 1 0 5), (2, SubmitResult 1 9 6)]) =
     [CallRequested 1 3 ''COA'' 7, CallFinished 1 0 5, CallFinished 1 9 6] \<and>
   reportHash (calls (fst (run ledger0 [(3, RequestCall ''COA'' 7), (2, SubmitResult 1 0 5)])) 1) = 5 \<and>
   reportHash (calls (fst (run ledger0
     [(3, RequestCall ''COA'' 7), (2, SubmitResult 1 0 5), (2, SubmitResult 1 9 6)])) 1) = 6"
  by (simp add: ledger0_def transact_def requestCall_def submitResult_def Let_def)

subsection \<open>Records with a result digest\<close>

lemma addModels_loop_calls:
  "calls (fst (addModels_loop s ms)) = calls s \<and>
   inferenceNode (fst (addModels_loop s ms)) = inferenceNode s"
  by (induction s ms rule: addModels_loop.induct) (simp_all add: split_beta)

lemma delModels_loop_calls:
  "calls (fst (delModels_loop s ms)) = calls s \<and>
   inferenceNode (fst (delModels_loop s ms)) = inferenceNode s"
  by (induction s ms rule: delModels_loop.induct) (simp_all add: split_beta)

lemma below_counter_succ:
  assumes "(i :: uint256) \<le> c" and "c \<noteq> - 1"
  shows "i \<noteq> c + 1 \<and> i \<le> c + 1"
proof -
  from assms have "unat i \<le> unat c" by (simp add: word_le_nat_alt)
  moreover from assms have "unat (c + 1) = Suc (unat c)" by (simp add: unat_succ)
  ultimately have "unat i < unat (c + 1)" by simp
  then show ?thesis by (auto simp add: word_le_nat_alt)
qed

lemma transact_keeps_fulfilled:
  assumes "i \<le> requestCounter s" and "resultHash (calls s i) \<noteq> 0"
  shows "i \<le> requestCounter (fst (transact s tx)) \<and> calls (fst (transact s tx)) i = calls s i"
proof (cases tx)
  case (Pair sender c)
  show ?thesis
  proof (cases c)
    case (AddModels ms)
    with Pair assms show ?thesis
      using addModels_loop_frame [of s ms]
      by (simp add: transact_def addModels_def addModels_loop_calls)
  next
    case (DelModels ms)
    with Pair assms show ?thesis
      using delModels_loop_frame [of s ms]
      by (simp add: transact_def delModels_def delModels_loop_calls)
  next
    case (RequestCall m h)
    with Pair assms show ?thesis
      using below_counter_succ [of i "requestCounter s"]
      by (simp add: transact_def requestCall_def Let_def)
  next
    case (SubmitResult j r p)
    with Pair assms show ?thesis
      by (auto simp add: transact_def submitResult_def)
  qed (use Pair assms in \<open>simp_all add: transact_def setInferenceNode_def addModel_def delModel_def\<close>)
qed

text \<open>
  Once a record of an allocated id has a non-zero result digest, no transaction
  changes it again, and \<^verbatim>\<open>submitResult\<close> on it fails with "already fulfilled".
\<close>

lemma fulfilled_record_is_final:
  assumes "0 < i" and "i \<le> requestCounter s" and "resultHash (calls s i) \<noteq> 0"
  shows "calls (fst (run s txs)) i = calls s i \<and>
     submitResult (fst (run s txs)) (inferenceNode (fst (run s txs))) i r p = Inl Already_fulfilled"
proof -
  have keep: "i \<le> requestCounter (fst (run s txs)) \<and> calls (fst (run s txs)) i = calls s i"
    using assms(2,3)
  proof (induction txs arbitrary: s)
    case Nil
    then show ?case by simp
  next
    case (Cons tx txs)
    from transact_keeps_fulfilled [OF Cons.prems, of tx]
    have t: "i \<le> requestCounter (fst (transact s tx))"
      "calls (fst (transact s tx)) i = calls s i" by simp_all
    with Cons.prems have "resultHash (calls (fst (transact s tx)) i) \<noteq> 0" by simp
    from Cons.IH [OF t(1) this] t(2) show ?case by (simp add: split_beta)
  qed
  with assms show ?thesis by (simp add: submitResult_def)
qed

subsection \<open>The model registry\<close>

text \<open>
  C5, as the code has it. \<^verbatim>\<open>addModel\<close> on a model that is present reverts with "model
  already exists" and changes nothing (the batch \<^verbatim>\<open>addModels\<close> skips such a name
  without an error). Two calls of \<^verbatim>\<open>addModel\<close> with a new name emit one
  \<^verbatim>\<open>ModelAdded\<close> and leave the name once in the listing. \<^verbatim>\<open>delModel\<close> on a model
  that is absent reverts with "model no exists" and changes nothing.
\<close>

theorem addModel_twice_delModel_absent:
  "(models s m \<longrightarrow> addModel s (owner s) m = Inl Model_already_exists \<and>
      transact s (owner s, AddModel m) = (s, []) \<and>
      addModels s (owner s) [m] = Inr (s, [])) \<and>
   (\<not> models s m \<and> m \<notin> set (modelList s) \<longrightarrow>
      snd (run s [(owner s, AddModel m), (owner s, AddModel m)]) = [ModelAdded m] \<and>
      count_list (getAllModels (fst (run s [(owner s, AddModel m), (owner s, AddModel m)]))) m = 1) \<and>
   (\<not> models s m \<longrightarrow> delModel s (owner s) m = Inl Model_no_exists \<and>
      transact s (owner s, DelModel m) = (s, []))"
  by (simp add: addModel_def delModel_def addModels_def transact_def getAllModels_def)

theorem addModel_twice_delModel_absent_witness:
  "addModel ledger0 1 ''COA'' = Inl Model_already_exists \<and>
   count_list (getAllModels (fst (run ledger0 [(1, AddModel ''GPT''), (1, AddModel ''GPT'')]))) ''GPT'' = 1 \<and>
   delModel ledger0 1 ''GPT'' = Inl Model_no_exists"
  using addModel_twice_delModel_absent [of ledger0 "''COA''"]
    addModel_twice_delModel_absent [of ledger0 "''GPT''"]
  by (simp add: ledger0_def)

text \<open>Adding the model that is present is not a silent no-op: the call reverts.\<close>

theorem addModel_present_raises:
  "addModel ledger0 (owner ledger0) ''COA'' \<noteq> Inr (ledger0, []) \<and>
   addModel ledger0 (owner ledger0) ''COA'' = Inl Model_already_exists"
  by (simp add: addModel_def ledger0_def)

section \<open>Properties of the engine\<close>

subsection \<open>Submitting\<close>

lemma find_SomeD: "find P xs = Some x \<Longrightarrow> P x \<and> x \<in> set xs"
  by (induction xs) (auto split: if_splits)

text \<open>
  C9, as the code has it. When the model is supported and the transaction succeeds,
  \<^verbatim>\<open>callInference\<close> returns the receipt, the prompt hash and a request id that is
  \<^verbatim>\<open>undefined\<close> exactly when no log of the receipt is a \<^verbatim>\<open>CallRequested\<close> event:
  the missing event is not an error. It fails only when the model is not supported or
  when a contract call throws.
\<close>

theorem callInference_without_event:
  "(models_view env m = Inr True \<and> send_requestCall env m (''0x'' @ objectKey) = Inr rc \<longrightarrow>
      (\<exists>i. callInference env objectKey m =
              Inr \<lparr>inference_receipt = rc, inference_requestId = i,
                   inference_promptHash = ''0x'' @ objectKey\<rparr> \<and>
            (i = None \<longleftrightarrow> \<not> (\<exists>l \<in> set (logs rc). is_CallRequested l)))) \<and>
   (callInference env objectKey m = Inl e \<longrightarrow>
      (e = Model_not_supported m \<and> models_view env m = Inr False) \<or>
      (\<exists>msg. e = External msg \<and>
         (models_view env m = Inl msg \<or> send_requestCall env m (''0x'' @ objectKey) = Inl msg)))"
  by (auto simp add: callInference_def Let_def find_None_iff split: sum.splits option.splits log.splits
      dest: find_SomeD)

theorem callInference_without_event_witness:
  "callInference pending_chain ''abc'' ''COA'' =
     Inr \<lparr>inference_receipt = \<lparr>logs = [Foreign_log], hash = ''0xfeed''\<rparr>,
          inference_requestId = None, inference_promptHash = ''0xabc''\<rparr>"
  using callInference_without_event [of pending_chain "''COA''" "''abc''"
      "\<lparr>logs = [Foreign_log], hash = ''0xfeed''\<rparr>"]
  by (auto simp add: pending_chain_def)

text \<open>
  A receipt without the event: the transaction has succeeded and \<^verbatim>\<open>callInference\<close>
  returns normally, with no request id.
\<close>

theorem callInference_missing_event_succeeds:
  "find is_CallRequested (logs \<lparr>logs = [Foreign_log], hash = ''0xfeed''\<rparr>) = None \<and>
   send_requestCall pending_chain ''COA'' ''0xabc'' = Inr \<lparr>logs = [Foreign_log], hash = ''0xfeed''\<rparr> \<and>
   callInference pending_chain ''abc'' ''COA'' =
     Inr \<lparr>inference_receipt = \<lparr>logs = [Foreign_log], hash = ''0xfeed''\<rparr>,
          inference_requestId = None, inference_promptHash = ''0xabc''\<rparr>"
  by (simp add: callInference_def pending_chain_def)

subsection \<open>Polling\<close>

lemma ZeroHash_neq: "''0xbb'' \<noteq> ZeroHash" "''0xcc'' \<noteq> ZeroHash"
  by (simp_all add: ZeroHash_def eval_nat_numeral)

lemma pending_chain_simps:
  "rpc_ms pending_chain = 0" "clock pending_chain = 0"
  "store_config pending_chain = DEFAULT_CONFIG"
  "getRequestDetails pending_chain t i = Inr \<lparr>details_caller = ''0xc0'', details_model = ''COA'',
        details_promptHash = ''0xaa'',
        details_resultHash = (if i = Some 7 then ''0xbb'' else ZeroHash),
        details_reportHash = (if i = Some 7 \<and> 10000 \<le> t then ''0xcc'' else ZeroHash)\<rparr>"
  by (simp_all add: pending_chain_def getRequestDetails_def)

lemma download_hashes:
  "download env requestId d tr = (Inr r, tr') \<Longrightarrow>
     resolved_resultHash r = details_resultHash d \<and> resolved_reportHash r = details_reportHash d
     \<and> resolved_requestId r = requestId"
  by (auto simp add: download_def split: prod.splits sum.splits)

lemma poll_resolved_digests:
  "poll env requestId maxWaitTime checkInterval startTime now tr = Some y \<Longrightarrow>
     (\<forall>r tr'. y = (Inr r, tr') \<longrightarrow>
        resolved_resultHash r \<noteq> ZeroHash \<and> resolved_reportHash r \<noteq> ZeroHash)"
  apply (erule poll.raw_induct [rotated])
  apply (auto split: if_splits sum.splits dest: download_hashes)
  done

text \<open>
  C7. While the wait is not over, a reading with a result digest and a zero report
  digest does not resolve the request: the engine reads once, waits \<open>checkInterval\<close>
  and polls again, without touching the store. And whenever
  \<^verbatim>\<open>waitForInferenceResult\<close> resolves, both digests it returns are non-zero.
\<close>

theorem partial_fulfilment_keeps_polling:
  "(int now - int startTime < int maxWaitTime \<and>
    getRequestDetails env now requestId = Inr d \<and>
    details_resultHash d \<noteq> ZeroHash \<and> details_reportHash d = ZeroHash \<longrightarrow>
      poll env requestId maxWaitTime checkInterval startTime now tr =
      poll env requestId maxWaitTime checkInterval startTime (now + rpc_ms env + checkInterval)
        (tr @ [Ledger_read requestId, Waited checkInterval])) \<and>
   (waitForInferenceResult env requestId maxWaitTime checkInterval = Some (Inr r, tr') \<longrightarrow>
      resolved_resultHash r \<noteq> ZeroHash \<and> resolved_reportHash r \<noteq> ZeroHash)"
proof (intro conjI impI)
  assume a: "int now - int startTime < int maxWaitTime \<and>
    getRequestDetails env now requestId = Inr d \<and>
    details_resultHash d \<noteq> ZeroHash \<and> details_reportHash d = ZeroHash"
  then show "poll env requestId maxWaitTime checkInterval startTime now tr =
      poll env requestId maxWaitTime checkInterval startTime (now + rpc_ms env + checkInterval)
        (tr @ [Ledger_read requestId, Waited checkInterval])"
    by (subst poll.simps) simp
next
  assume "waitForInferenceResult env requestId maxWaitTime checkInterval = Some (Inr r, tr')"
  then have "poll env requestId maxWaitTime checkInterval (clock env) (clock env) [] = Some (Inr r, tr')"
    by (simp add: waitForInferenceResult_def)
  from poll_resolved_digests [OF this]
  show "resolved_resultHash r \<noteq> ZeroHash" and "resolved_reportHash r \<noteq> ZeroHash" by simp_all
qed

text \<open>
  Request 7 at time 0 has its result digest only: the engine polls again, and resolves
  at time 10000, when the report digest is there.
\<close>

lemma getObject_pending_chain:
  "k \<noteq> [] \<Longrightarrow> getObject DEFAULT_CONFIG (store pending_chain) (JStr k) =
     (Inr (''content of '' @ k), [Request_sent (GET_object k) 1])"
  by (simp add: getObject_def requestWithRetry_def DEFAULT_CONFIG_def pending_chain_def
      requestWithRetry_loop.simps makeRequest_def)

theorem partial_fulfilment_keeps_polling_witness:
  "poll pending_chain (Some 7) 30000 10000 0 0 [] =
     poll pending_chain (Some 7) 30000 10000 0 10000 [Ledger_read (Some 7), Waited 10000] \<and>
   waitForInferenceResult pending_chain (Some 7) 30000 10000 =
     Some (Inr \<lparr>resolved_requestId = Some 7, resolved_resultHash = ''0xbb'',
                resolved_reportHash = ''0xcc'', resolved_result = ''content of bb'',
                resolved_report = ''content of cc''\<rparr>,
           [Ledger_read (Some 7), Waited 10000, Ledger_read (Some 7),
            Store_io (Request_sent (GET_object ''bb'') 1),
            Store_io (Request_sent (GET_object ''cc'') 1)])"
proof -
  have first: "poll pending_chain (Some 7) 30000 10000 0 0 [] =
     poll pending_chain (Some 7) 30000 10000 0 10000 [Ledger_read (Some 7), Waited 10000]"
    using partial_fulfilment_keeps_polling
      [where now = 0 and startTime = 0 and maxWaitTime = 30000 and env = pending_chain
         and requestId = "Some 7" and checkInterval = 10000 and tr = "[]"
         and d = "\<lparr>details_caller = ''0xc0'', details_model = ''COA'',
            details_promptHash = ''0xaa'', details_resultHash = ''0xbb'',
            details_reportHash = ZeroHash\<rparr>"]
    by (simp add: pending_chain_simps ZeroHash_neq)
  have second: "poll pending_chain (Some 7) 30000 10000 0 10000 [Ledger_read (Some 7), Waited 10000] =
     Some (Inr \<lparr>resolved_requestId = Some 7, resolved_resultHash = ''0xbb'',
                resolved_reportHash = ''0xcc'', resolved_result = ''content of bb'',
                resolved_report = ''content of cc''\<rparr>,
           [Ledger_read (Some 7), Waited 10000, Ledger_read (Some 7),
            Store_io (Request_sent (GET_object ''bb'') 1),
            Store_io (Request_sent (GET_object ''cc'') 1)])"
    by (subst poll.simps)
      (simp add: pending_chain_simps ZeroHash_neq download_def strip0x_def getObject_pending_chain)
  from first second show ?thesis
    by (simp add: waitForInferenceResult_def pending_chain_simps)
qed

subsection \<open>Timing out\<close>

lemma poll_pending_times_out:
  assumes pending: "\<forall>t. \<exists>d. getRequestDetails env t requestId = Inr d \<and>
      (details_resultHash d = ZeroHash \<or> details_reportHash d = ZeroHash)"
    and progress: "0 < rpc_ms env + checkInterval"
  shows "\<exists>tr'. poll env requestId maxWaitTime checkInterval startTime now tr =
           Some (Inl (Timeout_waiting maxWaitTime), tr') \<and>
         set tr' \<subseteq> set tr \<union> {Ledger_read requestId, Waited checkInterval}"
proof (induction "nat (int startTime + int maxWaitTime - int now)" arbitrary: now tr rule: less_induct)
  case less
  show ?case
  proof (cases "int now - int startTime < int maxWaitTime")
    case False
    then have "poll env requestId maxWaitTime checkInterval startTime now tr =
        Some (Inl (Timeout_waiting maxWaitTime), tr)"
      by (subst poll.simps) simp
    then show ?thesis by auto
  next
    case True
    from pending obtain d where d: "getRequestDetails env now requestId = Inr d"
      "details_resultHash d = ZeroHash \<or> details_reportHash d = ZeroHash" by blast
    have step: "poll env requestId maxWaitTime checkInterval startTime now tr =
        poll env requestId maxWaitTime checkInterval startTime (now + rpc_ms env + checkInterval)
          (tr @ [Ledger_read requestId, Waited checkInterval])"
      using True d by (subst poll.simps) auto
    have "nat (int startTime + int maxWaitTime - int (now + rpc_ms env + checkInterval))
        < nat (int startTime + int maxWaitTime - int now)"
      using True progress by linarith
    from less [OF this, of "tr @ [Ledger_read requestId, Waited checkInterval]"]
    show ?thesis unfolding step by auto
  qed
qed

text \<open>
  C8, as the code has it. When every read of the ledger succeeds and shows the request
  not fulfilled, and time moves between two polls, \<^verbatim>\<open>waitForInferenceResult\<close> ends by
  throwing the timeout error. The error carries \<open>maxWaitTime\<close>, the configured limit,
  and nothing else: neither the request id nor the time that has passed. Until then
  the engine has only read the ledger and waited, so the same id can be polled again.
\<close>

theorem polling_times_out:
  assumes "\<forall>t. \<exists>d. getRequestDetails env t requestId = Inr d \<and>
      (details_resultHash d = ZeroHash \<or> details_reportHash d = ZeroHash)"
    and "0 < rpc_ms env + checkInterval"
  shows "\<exists>tr. waitForInferenceResult env requestId maxWaitTime checkInterval =
           Some (Inl (Timeout_waiting maxWaitTime), tr) \<and>
         set tr \<subseteq> {Ledger_read requestId, Waited checkInterval}"
  using poll_pending_times_out [OF assms, of maxWaitTime "clock env" "clock env" "[]"]
  by (simp add: waitForInferenceResult_def)

theorem polling_times_out_witness:
  "\<exists>tr. waitForInferenceResult pending_chain (Some 1) 3000 1000 =
           Some (Inl (Timeout_waiting 3000), tr) \<and>
         set tr \<subseteq> {Ledger_read (Some 1), Waited 1000}"
  using polling_times_out [of pending_chain "Some 1" 1000 3000]
  by (simp add: pending_chain_simps)

text \<open>
  Two waits, for request 1 during three polls one second apart and for request 2
  during two polls two seconds apart (four seconds in all), end with the same error.
\<close>

theorem timeout_error_is_the_same:
  "waitForInferenceResult pending_chain (Some 1) 3000 1000 =
     Some (Inl (Timeout_waiting 3000),
           [Ledger_read (Some 1), Waited 1000, Ledger_read (Some 1), Waited 1000,
            Ledger_read (Some 1), Waited 1000]) \<and>
   waitForInferenceResult pending_chain (Some 2) 3000 2000 =
     Some (Inl (Timeout_waiting 3000),
           [Ledger_read (Some 2), Waited 2000, Ledger_read (Some 2), Waited 2000])"
  apply (simp add: waitForInferenceResult_def pending_chain_simps)
  apply (subst poll.simps, simp add: pending_chain_simps)+
  done

section \<open>Properties of the content store client\<close>
















section \<open>Properties of the attestation verifier\<close>
















end
